theory Spec2Isabelle
  imports Complex_Main "HOL-Library.Multiset"
begin

section \<open>Center sampling of the kernel mixture network (\<open>src/kmn.py\<close>)\<close>

text \<open>
  The embedding covers lines 1 to 80 of \<open>kmn.py\<close>: the sampler functions, the name
  registry \<open>sampler_from_name\<close> and the orchestration function
  \<open>sample_center_points\<close>.  Exceptions are values of a sum type, the random generator
  and the clustering library are explicit arguments, and the names bound in the module
  are explicit too, because \<open>sample_center_points\<close> looks the global name
  \<open>warnings\<close> up when it runs.  The functions are given twice: on the values of the
  arrays, and on a store of array buffers, where it shows which calls copy and which
  share the caller's buffer; the second refines the first.
\<close>

subsection \<open>Errors, arrays, warnings\<close>

text \<open>
  The exception classes that lines 1 to 80 can raise.  \<open>NameError n\<close> is Python's
  "name n is not defined"; \<open>ValueError msg\<close> carries the message; \<open>IndexError\<close> is
  numpy's out-of-bounds read of \<open>y[0]\<close>.
\<close>

datatype error =
    NameError string
  | ValueError string
  | NotImplementedError
  | IndexError

text \<open>
  A numpy array of floats of rank one or two.  The targets come in either shape, and
  \<open>cluster_centers_\<close> of k-means is a matrix with one column.
\<close>

datatype ndarray = Arr1 "real list" | Arr2 "real list list"

fun ravel :: "ndarray \<Rightarrow> real list" where
  "ravel (Arr1 xs) = xs"
| "ravel (Arr2 xss) = concat xss"

text \<open>\<open>y.reshape(-1, 1)\<close> of a flat array: one row per value.\<close>

definition reshape_column :: "real list \<Rightarrow> real list list" where
  "reshape_column y = map (\<lambda>v. [v]) y"

text \<open>\<open>np.append(a, b)\<close> without an axis flattens both arguments.\<close>

definition np_append :: "real list \<Rightarrow> ndarray \<Rightarrow> real list" where
  "np_append centers values = centers @ ravel values"

datatype warning = DeprecationWarning string

text \<open>Sequencing of calls that may raise: the first error ends the computation.\<close>

fun and_then :: "error + 'a \<Rightarrow> ('a \<Rightarrow> error + 'b) \<Rightarrow> error + 'b" where
  "and_then (Inl e) f = Inl e"
| "and_then (Inr x) f = f x"

subsection \<open>The module namespace\<close>

text \<open>
  The names that \<open>kmn.py\<close> binds at module level: its ten import lines (lines 1 to 10)
  and its definitions.  There is no \<open>import warnings\<close>, and \<open>warnings\<close> is not a
  builtin.
\<close>

definition kmn_globals :: "string list" where
  "kmn_globals =
     [''np'', ''KMeans'', ''AgglomerativeClustering'', ''pd'', ''BaseEstimator'',
      ''Categorical'', ''Mixture'', ''Normal'', ''Dense'', ''Dropout'', ''math'',
      ''ed'', ''tf'', ''plt'',
      ''random_sampler'', ''all_sampler'', ''k_means_sampler'',
      ''agglomerative_sampler'', ''distance_sampler'', ''fixed_sampler'',
      ''sampler_from_name'', ''sample_center_points'', ''KernelMixtureNetwork'']"

text \<open>
  \<open>warnings.warn(msg, DeprecationWarning)\<close> in a namespace \<open>g\<close>: the name
  \<open>warnings\<close> is resolved first, which raises \<open>NameError\<close> when it is unbound;
  otherwise the warning is recorded after the ones emitted so far.
\<close>

definition warn :: "string list \<Rightarrow> string \<Rightarrow> warning list \<Rightarrow> error + warning list" where
  "warn g msg ws =
     (if ''warnings'' \<in> set g then Inr (ws @ [DeprecationWarning msg])
      else Inl (NameError ''warnings''))"

definition msg_k :: string where
  "msg_k = ''Passing k is deprected, pass a sampler method instead''"

definition msg_method :: string where
  "msg_method = ''Passing a string as method is deprecated, pass a sampler method instead''"

subsection \<open>External collaborators\<close>

text \<open>
  \<open>np.random.choice(a, size, replace=False)\<close>, after numpy's documentation: it raises
  \<open>ValueError\<close> for an empty population and for a sample larger than the population,
  and otherwise returns the values at the first \<open>size\<close> positions of a random
  permutation of the positions.  The argument \<open>rng\<close> is the generator's outcome: the
  permutation it draws for a population of the given size.
\<close>

type_synonym rng = "nat \<Rightarrow> nat list"

definition np_random_choice :: "rng \<Rightarrow> real list \<Rightarrow> int \<Rightarrow> error + real list" where
  "np_random_choice gen a sz =
     (if a = [] then Inl (ValueError ''a must be non-empty'')
      else if sz < 0 then Inl (ValueError ''negative dimensions are not allowed'')
      else if sz > int (length a)
        then Inl (ValueError ''Cannot take a larger sample than population when replace=False'')
      else Inr (map (\<lambda>i. a ! i) (take (nat sz) (gen (length a)))))"

text \<open>What the generator can return for a population of size \<open>n\<close>.\<close>

definition rng_outcome :: "nat list \<Rightarrow> nat \<Rightarrow> bool" where
  "rng_outcome p n = (mset p = mset [0..<n])"

text \<open>
  The two estimators of scikit-learn, as far as the samplers use them: the fitted
  \<open>cluster_centers_\<close> of \<open>KMeans(n_clusters=k)\<close> on a column of values, and the fitted
  \<open>labels_\<close> of \<open>AgglomerativeClustering(n_clusters=k, linkage='complete')\<close>.
\<close>

record sklearn =
  KMeans_cluster_centers :: "int \<Rightarrow> real list list \<Rightarrow> error + real list list"
  AgglomerativeClustering_labels :: "int \<Rightarrow> real list list \<Rightarrow> error + nat list"

subsection \<open>The samplers (lines 13 to 40)\<close>

type_synonym sampler = "rng \<Rightarrow> real list \<Rightarrow> int \<Rightarrow> error + ndarray"

definition random_sampler :: sampler where
  "random_sampler gen y k = and_then (np_random_choice gen y k) (\<lambda>r. Inr (Arr1 r))"

definition all_sampler :: sampler where
  "all_sampler gen y k = Inr (Arr1 y)"

definition k_means_sampler :: "sklearn \<Rightarrow> sampler" where
  "k_means_sampler lib gen y k =
     and_then (KMeans_cluster_centers lib k (reshape_column y)) (\<lambda>c. Inr (Arr2 c))"

text \<open>
  \<open>df.groupby('label')['y'].mean().values\<close>: one mean per label that occurs, in
  ascending order of the labels.
\<close>

definition mean :: "real list \<Rightarrow> real" where
  "mean xs = sum_list xs / real (length xs)"

definition groupby_mean :: "real list \<Rightarrow> nat list \<Rightarrow> real list" where
  "groupby_mean y labels =
     map (\<lambda>l. mean (map fst (filter (\<lambda>p. snd p = l) (zip y labels))))
         (sort (remdups labels))"

definition agglomerative_sampler :: "sklearn \<Rightarrow> sampler" where
  "agglomerative_sampler lib gen y k =
     and_then (AgglomerativeClustering_labels lib k (reshape_column y))
       (\<lambda>labels. Inr (Arr1 (groupby_mean y labels)))"

definition distance_sampler :: sampler where
  "distance_sampler gen y k = Inl NotImplementedError"

definition fixed_sampler :: sampler where
  "fixed_sampler gen y k = Inr (Arr1 [1, 2, 3, 4, 5])"

subsection \<open>The registry (lines 43 to 53)\<close>

text \<open>
  The dictionary of line 45, in the order of the source.  Its keys are four strings and
  \<open>None\<close>, so a key is a \<open>string option\<close>.  \<open>fixed_sampler\<close> has no entry.
\<close>

definition registry :: "sklearn \<Rightarrow> (string option \<times> sampler) list" where
  "registry lib =
     [(Some ''random'', random_sampler),
      (Some ''distance'', distance_sampler),
      (Some ''k_means'', k_means_sampler lib),
      (Some ''agglomerative'', agglomerative_sampler lib),
      (None, all_sampler)]"

text \<open>The f-string \<open>{name}\<close> of line 53.\<close>

fun format_name :: "string option \<Rightarrow> string" where
  "format_name None = ''None''"
| "format_name (Some s) = s"

definition sampler_from_name :: "sklearn \<Rightarrow> string option \<Rightarrow> error + sampler" where
  "sampler_from_name lib name =
     (case map_of (registry lib) name of
        Some f \<Rightarrow> Inr f
      | None \<Rightarrow> Inl (ValueError (''unknown method '' @ format_name name)))"

subsection \<open>The orchestration function (lines 56 to 80)\<close>

text \<open>
  The \<open>method\<close> argument: a string or \<open>None\<close> (the deprecated selection by name), or a
  sampler function.
\<close>

datatype 'f method_arg = ByName "string option" | ByFunction 'f

text \<open>Lines 60 and 61.\<close>

definition notice_k :: "string list \<Rightarrow> int \<Rightarrow> error + warning list" where
  "notice_k g k = (if k \<noteq> 100 then warn g msg_k [] else Inr [])"

text \<open>Lines 63 to 65.\<close>

fun resolve_method :: "string list \<Rightarrow> sklearn \<Rightarrow> sampler method_arg \<Rightarrow> warning list
    \<Rightarrow> error + (warning list \<times> sampler)" where
  "resolve_method g lib (ByName name) ws =
     and_then (warn g msg_method ws)
       (\<lambda>ws'. and_then (sampler_from_name lib name) (\<lambda>f. Inr (ws', f)))"
| "resolve_method g lib (ByFunction f) ws = Inr (ws, f)"

text \<open>
  Lines 71 to 77: the centers reserved so far, the values left for the sampler and the
  count left for it.  \<open>y[0]\<close> of an empty array raises; \<open>y[1:-1]\<close> of a sorted array
  drops its first and its last element and is empty for fewer than three elements.
\<close>

definition reserve_edges :: "bool \<Rightarrow> real list \<Rightarrow> int
    \<Rightarrow> error + (real list \<times> real list \<times> int)" where
  "reserve_edges keep_edges y k =
     (if keep_edges then
        (let ys = sort y in
         if ys = [] then Inl IndexError
         else Inr ([hd ys, last ys], butlast (tl ys), k - 2))
      else Inr ([], y, k))"

definition sample_center_points :: "string list \<Rightarrow> sklearn \<Rightarrow> rng \<Rightarrow> ndarray
    \<Rightarrow> sampler method_arg \<Rightarrow> int \<Rightarrow> bool \<Rightarrow> error + (warning list \<times> real list)" where
  "sample_center_points g lib gen y method k keep_edges =
     and_then (notice_k g k) (\<lambda>ws1.
     and_then (resolve_method g lib method ws1) (\<lambda>(ws, f).
     and_then (reserve_edges keep_edges (ravel y) k) (\<lambda>(centers, y', k').
     and_then (f gen y' k') (\<lambda>cluster_centers.
       Inr (ws, np_append centers cluster_centers)))))"

subsection \<open>Valid requests and the answers of the estimators\<close>

text \<open>
  The requests that the claim about the number of centers is about: \<open>k\<close> is positive
  and at most the number of targets, and at least 2 where two slots are reserved for the
  edges.
\<close>

definition valid_k :: "bool \<Rightarrow> nat \<Rightarrow> int \<Rightarrow> bool" where
  "valid_k keep_edges n k =
     (if keep_edges then 2 \<le> k \<and> k \<le> int n else 0 < k \<and> k \<le> int n)"

text \<open>
  What the estimators answer where they succeed on \<open>k\<close> clusters, after the
  documentation of scikit-learn: \<open>cluster_centers_\<close> has \<open>k\<close> rows of one feature each;
  \<open>labels_\<close> has one label per sample, and the labels in use are exactly \<open>0, ..., k - 1\<close>.
\<close>

definition kmeans_returns_k :: "sklearn \<Rightarrow> int \<Rightarrow> real list \<Rightarrow> bool" where
  "kmeans_returns_k lib k y =
     (case KMeans_cluster_centers lib k (reshape_column y) of
        Inl e \<Rightarrow> False
      | Inr c \<Rightarrow> int (length c) = k \<and> list_all (\<lambda>row. length row = 1) c)"

definition agglomerative_labels_k :: "sklearn \<Rightarrow> int \<Rightarrow> real list \<Rightarrow> bool" where
  "agglomerative_labels_k lib k y =
     (case AgglomerativeClustering_labels lib k (reshape_column y) of
        Inl e \<Rightarrow> False
      | Inr labels \<Rightarrow> 0 \<le> k \<and> length labels = length y \<and> sort (remdups labels) = [0..<nat k])"

subsection \<open>Inputs of the worked examples\<close>

text \<open>
  The theorems below hold for every generator outcome and every library.  The worked
  examples need arguments that can be evaluated: a generator that draws the positions
  in descending order, and a stand-in for the clustering library that answers with the
  first \<open>k\<close> rows and with labels dealt round-robin.
\<close>

definition example_gen :: rng where
  "example_gen n = rev [0..<n]"

text \<open>A sampler that answers with the budget it is handed.\<close>

definition budget_probe :: sampler where
  "budget_probe gen y k = Inr (Arr1 [real_of_int k])"

definition example_sklearn :: sklearn where
  "example_sklearn =
     \<lparr> KMeans_cluster_centers = (\<lambda>k X.
         if 0 < k \<and> k \<le> int (length X) then Inr (take (nat k) X)
         else Inl (ValueError ''n_samples should be >= n_clusters'')),
       AgglomerativeClustering_labels = (\<lambda>k X.
         if 0 < k \<and> k \<le> int (length X) then Inr (map (\<lambda>i. i mod nat k) [0..<length X])
         else Inl (ValueError ''n_clusters out of range'')) \<rparr>"

section \<open>The same functions on a store of array buffers\<close>

text \<open>
  Whether the caller's array is written to depends on which numpy calls copy.  The store
  is the list of the array buffers allocated so far; a buffer's address is its position.
  An array object refers to a run of consecutive elements of one buffer, so that a view
  (\<open>ravel\<close> of a contiguous array, a slice) shares the buffer of the array it is taken
  from.
\<close>

type_synonym store = "real list list"

record array_ref =
  addr :: nat
  lo :: nat
  n_elems :: nat

text \<open>The elements that an array object shows.\<close>

definition contents :: "store \<Rightarrow> array_ref \<Rightarrow> real list" where
  "contents st a = take (n_elems a) (drop (lo a) (st ! addr a))"

text \<open>
  A call takes the store and gives the store it leaves behind, together with its result
  or the exception it raises.
\<close>

type_synonym 'a action = "store \<Rightarrow> store \<times> (error + 'a)"

definition returns :: "'a \<Rightarrow> 'a action" where
  "returns x st = (st, Inr x)"

definition raises :: "error \<Rightarrow> 'a action" where
  "raises e st = (st, Inl e)"

definition outcome :: "error + 'a \<Rightarrow> 'a action" where
  "outcome r st = (st, r)"

definition next_do :: "'a action \<Rightarrow> ('a \<Rightarrow> 'b action) \<Rightarrow> 'b action" where
  "next_do m f st =
     (case m st of (st', Inl e) \<Rightarrow> (st', Inl e) | (st', Inr x) \<Rightarrow> f x st')"

text \<open>
  A fresh array (\<open>np.empty\<close>, \<open>np.array\<close>, and every numpy call that returns a copy) gets
  a new buffer behind the existing ones.
\<close>

definition new_array :: "real list \<Rightarrow> array_ref action" where
  "new_array xs st = (st @ [xs], Inr \<lparr>addr = length st, lo = 0, n_elems = length xs\<rparr>)"

definition read_array :: "array_ref \<Rightarrow> real list action" where
  "read_array a st = (st, Inr (contents st a))"

text \<open>
  \<open>np.sort(y)\<close> of line 73 returns a sorted copy (the method \<open>y.sort()\<close> would sort in
  place; the source does not call it).  \<open>y[1:-1]\<close> of line 75 is a view.
\<close>

definition np_sort :: "array_ref \<Rightarrow> array_ref action" where
  "np_sort a = next_do (read_array a) (\<lambda>xs. new_array (sort xs))"

definition slice_1_minus_1 :: "array_ref \<Rightarrow> array_ref" where
  "slice_1_minus_1 a = a\<lparr>lo := lo a + 1, n_elems := n_elems a - 2\<rparr>"

text \<open>
  The six samplers on the store.  \<open>np.random.choice\<close>, the two estimators and the
  pandas group means read their input and return new arrays; \<open>all_sampler\<close> returns the
  array object it is handed.
\<close>

type_synonym store_sampler = "rng \<Rightarrow> array_ref \<Rightarrow> int \<Rightarrow> array_ref action"

definition random_sampler_st :: store_sampler where
  "random_sampler_st gen y k =
     next_do (read_array y) (\<lambda>xs. next_do (outcome (np_random_choice gen xs k)) new_array)"

definition all_sampler_st :: store_sampler where
  "all_sampler_st gen y k = returns y"

definition k_means_sampler_st :: "sklearn \<Rightarrow> store_sampler" where
  "k_means_sampler_st lib gen y k =
     next_do (read_array y) (\<lambda>xs.
     next_do (outcome (KMeans_cluster_centers lib k (reshape_column xs))) (\<lambda>c.
       new_array (concat c)))"

definition agglomerative_sampler_st :: "sklearn \<Rightarrow> store_sampler" where
  "agglomerative_sampler_st lib gen y k =
     next_do (read_array y) (\<lambda>xs.
     next_do (outcome (AgglomerativeClustering_labels lib k (reshape_column xs))) (\<lambda>labels.
       new_array (groupby_mean xs labels)))"

definition distance_sampler_st :: store_sampler where
  "distance_sampler_st gen y k = raises NotImplementedError"

definition fixed_sampler_st :: store_sampler where
  "fixed_sampler_st gen y k = new_array [1, 2, 3, 4, 5]"

text \<open>The six samplers that \<open>kmn.py\<close> defines, by name.\<close>

datatype builtin = Random | All | K_means | Agglomerative | Distance | Fixed

fun builtin_st :: "sklearn \<Rightarrow> builtin \<Rightarrow> store_sampler" where
  "builtin_st lib Random = random_sampler_st"
| "builtin_st lib All = all_sampler_st"
| "builtin_st lib K_means = k_means_sampler_st lib"
| "builtin_st lib Agglomerative = agglomerative_sampler_st lib"
| "builtin_st lib Distance = distance_sampler_st"
| "builtin_st lib Fixed = fixed_sampler_st"

text \<open>Lines 43 to 65 on the store: the registry and the selection of the sampler.\<close>

definition registry_st :: "sklearn \<Rightarrow> (string option \<times> store_sampler) list" where
  "registry_st lib =
     [(Some ''random'', random_sampler_st),
      (Some ''distance'', distance_sampler_st),
      (Some ''k_means'', k_means_sampler_st lib),
      (Some ''agglomerative'', agglomerative_sampler_st lib),
      (None, all_sampler_st)]"

definition sampler_from_name_st :: "sklearn \<Rightarrow> string option \<Rightarrow> error + store_sampler" where
  "sampler_from_name_st lib name =
     (case map_of (registry_st lib) name of
        Some f \<Rightarrow> Inr f
      | None \<Rightarrow> Inl (ValueError (''unknown method '' @ format_name name)))"

fun resolve_method_st :: "string list \<Rightarrow> sklearn \<Rightarrow> store_sampler method_arg \<Rightarrow> warning list
    \<Rightarrow> error + (warning list \<times> store_sampler)" where
  "resolve_method_st g lib (ByName name) ws =
     and_then (warn g msg_method ws)
       (\<lambda>ws'. and_then (sampler_from_name_st lib name) (\<lambda>f. Inr (ws', f)))"
| "resolve_method_st g lib (ByFunction f) ws = Inr (ws, f)"

text \<open>
  Lines 72 to 77 on the store; \<open>centers\<close> is the empty array of line 71, which line 74
  replaces by the array of the two edges.
\<close>

definition reserve_edges_st :: "bool \<Rightarrow> array_ref \<Rightarrow> array_ref \<Rightarrow> int
    \<Rightarrow> (array_ref \<times> array_ref \<times> int) action" where
  "reserve_edges_st keep_edges centers y k =
     (if keep_edges then
        next_do (np_sort y) (\<lambda>ys.
        next_do (read_array ys) (\<lambda>vals.
        if vals = [] then raises IndexError
        else next_do (new_array [hd vals, last vals]) (\<lambda>edges.
             returns (edges, slice_1_minus_1 ys, k - 2))))
      else returns (centers, y, k))"

text \<open>\<open>np.append\<close> of line 80 concatenates into a new array.\<close>

definition np_append_st :: "array_ref \<Rightarrow> array_ref \<Rightarrow> array_ref action" where
  "np_append_st a b =
     next_do (read_array a) (\<lambda>xs. next_do (read_array b) (\<lambda>ys. new_array (xs @ ys)))"

text \<open>
  Lines 56 to 80 on the store.  \<open>y.ravel()\<close> of line 68 is a view of the caller's
  contiguous array, so \<open>y\<close> keeps referring to the caller's buffer.
\<close>

definition sample_center_points_st :: "string list \<Rightarrow> sklearn \<Rightarrow> rng \<Rightarrow> array_ref
    \<Rightarrow> store_sampler method_arg \<Rightarrow> int \<Rightarrow> bool \<Rightarrow> (warning list \<times> array_ref) action" where
  "sample_center_points_st g lib gen y method k keep_edges =
     next_do (outcome (notice_k g k)) (\<lambda>ws1.
     next_do (outcome (resolve_method_st g lib method ws1)) (\<lambda>(ws, f).
     next_do (new_array []) (\<lambda>centers.
     next_do (reserve_edges_st keep_edges centers y k) (\<lambda>(centers, y', k').
     next_do (f gen y' k') (\<lambda>cluster_centers.
     next_do (np_append_st centers cluster_centers) (\<lambda>r.
       returns (ws, r)))))))"

text \<open>
  A store extends another when every buffer of the other is still there, at its
  address, with the same elements in the same order.  A call is frame safe when the
  store it leaves behind extends the store it started in.
\<close>

definition extends :: "store \<Rightarrow> store \<Rightarrow> bool" where
  "extends st st' = (take (length st) st' = st)"

definition frame_safe :: "'a action \<Rightarrow> bool" where
  "frame_safe m = (\<forall>st. extends st (fst (m st)))"

fun builtin_sampler :: "sklearn \<Rightarrow> builtin \<Rightarrow> sampler" where
  "builtin_sampler lib Random = random_sampler"
| "builtin_sampler lib All = all_sampler"
| "builtin_sampler lib K_means = k_means_sampler lib"
| "builtin_sampler lib Agglomerative = agglomerative_sampler lib"
| "builtin_sampler lib Distance = distance_sampler"
| "builtin_sampler lib Fixed = fixed_sampler"

text \<open>
  A strategy is selected by name or as one of the six samplers; the selection reads as an
  argument of the function on values and as an argument of the function on the store.
\<close>

fun method_on_values :: "sklearn \<Rightarrow> builtin method_arg \<Rightarrow> sampler method_arg" where
  "method_on_values lib (ByName name) = ByName name"
| "method_on_values lib (ByFunction b) = ByFunction (builtin_sampler lib b)"

fun method_on_store :: "sklearn \<Rightarrow> builtin method_arg \<Rightarrow> store_sampler method_arg" where
  "method_on_store lib (ByName name) = ByName name"
| "method_on_store lib (ByFunction b) = ByFunction (builtin_st lib b)"

text \<open>
  A sampler on the store refines a sampler on values when it raises the same exception
  or returns an array that shows the same values.
\<close>

definition sampler_refines :: "store_sampler \<Rightarrow> sampler \<Rightarrow> bool" where
  "sampler_refines fs f =
     (\<forall>gen y k st. addr y < length st \<longrightarrow>
        (case fs gen y k st of
           (st', Inl e) \<Rightarrow> f gen (contents st y) k = Inl e
         | (st', Inr a) \<Rightarrow> addr a < length st' \<and>
             (\<exists>out. f gen (contents st y) k = Inr out \<and> contents st' a = ravel out)))"

section \<open>Properties\<close>

subsection \<open>Auxiliary facts\<close>

lemma and_then_Inr_iff: "and_then m f = Inr r \<longleftrightarrow> (\<exists>x. m = Inr x \<and> f x = Inr r)"
  by (cases m) auto

lemma and_then_Inl_iff:
  "and_then m f = Inl e \<longleftrightarrow> m = Inl e \<or> (\<exists>x. m = Inr x \<and> f x = Inl e)"
  by (cases m) auto

lemma sorted_hd_Min:
  fixes ys :: "real list"
  assumes "sorted ys" "ys \<noteq> []"
  shows "hd ys = Min (set ys)"
proof -
  from assms(2) obtain x xs where ys: "ys = x # xs" by (cases ys) auto
  with assms(1) have "\<forall>z\<in>set ys. x \<le> z" by auto
  then have "Min (set ys) = x" using ys by (intro Min_eqI) auto
  with ys show ?thesis by simp
qed

lemma sorted_last_Max:
  fixes ys :: "real list"
  assumes "sorted ys" "ys \<noteq> []"
  shows "last ys = Max (set ys)"
proof -
  from assms(2) have ys: "ys = butlast ys @ [last ys]" by simp
  with assms(1) have "sorted (butlast ys @ [last ys])" by simp
  then have "\<forall>z\<in>set (butlast ys). z \<le> last ys" by (simp add: sorted_append)
  moreover have "set ys = insert (last ys) (set (butlast ys))"
    by (subst ys) simp
  ultimately have "\<forall>z\<in>set ys. z \<le> last ys" by auto
  then have "Max (set ys) = last ys" using assms(2) by (intro Max_eqI) auto
  then show ?thesis by simp
qed

lemma sort_not_Nil: "xs \<noteq> [] \<Longrightarrow> sort xs \<noteq> ([] :: real list)"
  by (metis length_sort length_0_conv)

lemma hd_sort_Min: "xs \<noteq> [] \<Longrightarrow> hd (sort xs) = Min (set (xs :: real list))"
  using sorted_hd_Min [of "sort xs"] sort_not_Nil [of xs] by simp

lemma last_sort_Max: "xs \<noteq> [] \<Longrightarrow> last (sort xs) = Max (set (xs :: real list))"
  using sorted_last_Max [of "sort xs"] sort_not_Nil [of xs] by simp

lemma mset_interior:
  assumes "2 \<le> length ys"
  shows "mset (butlast (tl ys)) + {#hd ys, last ys#} = mset ys"
proof -
  from assms obtain x xs where ys: "ys = x # xs" and xs: "xs \<noteq> []"
    by (cases ys) (auto simp: Suc_le_eq)
  from xs have "xs = butlast xs @ [last xs]" by simp
  then have "mset xs = mset (butlast xs) + {#last xs#}"
    by (metis mset.simps(1) mset.simps(2) mset_append)
  with ys xs show ?thesis by simp
qed

subsection \<open>The samplers\<close>

text \<open>
  C8.  Invoking the distance strategy fails with \<open>NotImplementedError\<close> for every
  input array and every \<open>k\<close>, and \<open>sample_center_points\<close> returns no value when the
  distance strategy is selected, by reference or by name.
\<close>

theorem distance_sampler_not_implemented:
  "distance_sampler gen y k = Inl NotImplementedError
   \<and> isl (sample_center_points g lib gen a (ByFunction distance_sampler) k keep_edges)
   \<and> isl (sample_center_points g lib gen a (ByName (Some ''distance'')) k keep_edges)"
  by (auto simp: distance_sampler_def sample_center_points_def notice_k_def warn_def
      reserve_edges_def sampler_from_name_def registry_def Let_def)

lemma rng_outcome_take:
  assumes "rng_outcome p n" "m \<le> n"
  shows "length (take m p) = m \<and> distinct (take m p) \<and> set (take m p) \<subseteq> {..<n}"
proof -
  from assms(1) have ms: "mset p = mset [0..<n]" by (simp add: rng_outcome_def)
  then have "length p = n" using mset_eq_length by fastforce
  moreover from ms have "distinct p" by (metis distinct_upt mset_eq_imp_distinct_iff)
  moreover from ms have "set p = {0..<n}" using mset_eq_setD by fastforce
  ultimately show ?thesis using assms(2) by (auto dest: in_set_takeD)
qed

text \<open>
  C7.  For every input array, every outcome of the generator and every \<open>0 < k \<le> len(y)\<close>
  the random strategy returns \<open>k\<close> values read at \<open>k\<close> pairwise different positions of
  the input, so each returned value is a member of the input; for every \<open>k > len(y)\<close>
  it fails with numpy's \<open>ValueError\<close>, the sampling error of the specification.
\<close>

theorem random_sampler_without_replacement:
  "rng_outcome (gen (length y)) (length y) \<Longrightarrow>
   (0 < k \<and> k \<le> int (length y) \<longrightarrow>
      (\<exists>idx. random_sampler gen y k = Inr (Arr1 (map (\<lambda>i. y ! i) idx))
         \<and> length idx = nat k \<and> distinct idx \<and> set idx \<subseteq> {..<length y}
         \<and> set (map (\<lambda>i. y ! i) idx) \<subseteq> set y))
   \<and> (int (length y) < k \<longrightarrow> (\<exists>msg. random_sampler gen y k = Inl (ValueError msg)))"
proof (intro conjI impI)
  assume g: "rng_outcome (gen (length y)) (length y)" and k: "0 < k \<and> k \<le> int (length y)"
  let ?idx = "take (nat k) (gen (length y))"
  from k have le: "nat k \<le> length y" by linarith
  from rng_outcome_take[OF g le]
  have idx: "length ?idx = nat k" "distinct ?idx" "set ?idx \<subseteq> {..<length y}" by simp_all
  from k have "y \<noteq> []" by auto
  with k have "random_sampler gen y k = Inr (Arr1 (map (\<lambda>i. y ! i) ?idx))"
    by (simp add: random_sampler_def np_random_choice_def)
  moreover from idx(3) have "set (map (\<lambda>i. y ! i) ?idx) \<subseteq> set y" by auto
  ultimately show "\<exists>idx. random_sampler gen y k = Inr (Arr1 (map (\<lambda>i. y ! i) idx))
         \<and> length idx = nat k \<and> distinct idx \<and> set idx \<subseteq> {..<length y}
         \<and> set (map (\<lambda>i. y ! i) idx) \<subseteq> set y"
    using idx by blast
next
  assume "int (length y) < k"
  then show "\<exists>msg. random_sampler gen y k = Inl (ValueError msg)"
    by (simp add: random_sampler_def np_random_choice_def)
qed

theorem random_sampler_without_replacement_witness:
  "rng_outcome (rev [0..<length [5, 7, 9 :: real]]) (length [5, 7, 9 :: real])
   \<and> random_sampler (\<lambda>n. rev [0..<n]) [5, 7, 9] 2 = Inr (Arr1 [9, 7])
   \<and> (\<exists>msg. random_sampler (\<lambda>n. rev [0..<n]) [5, 7, 9] 4 = Inl (ValueError msg))"
proof -
  have h: "rng_outcome ((\<lambda>n. rev [0..<n]) (length [5, 7, 9 :: real])) (length [5, 7, 9 :: real])"
    by (simp add: rng_outcome_def)
  have e: "random_sampler (\<lambda>n. rev [0..<n]) [5, 7, 9] 2 = Inr (Arr1 [9, 7])"
    by (simp add: random_sampler_def np_random_choice_def upt_rec)
  show ?thesis
    using h e random_sampler_without_replacement [of "\<lambda>n. rev [0..<n]" "[5, 7, 9]" 2]
      random_sampler_without_replacement [of "\<lambda>n. rev [0..<n]" "[5, 7, 9]" 4] by simp
qed

subsection \<open>The orchestration function\<close>

lemma notice_k_100: "notice_k g 100 = Inr []"
  by (simp add: notice_k_def)

lemma reserve_edges_True:
  "y \<noteq> [] \<Longrightarrow> reserve_edges True y k =
     Inr ([Min (set y), Max (set y)], butlast (tl (sort y)), k - 2)"
  by (simp add: reserve_edges_def Let_def sort_not_Nil hd_sort_Min last_sort_Max)

lemma reserve_edges_False: "reserve_edges False y k = Inr ([], y, k)"
  by (simp add: reserve_edges_def)

lemma sample_center_points_keep_edges:
  "ravel y \<noteq> [] \<Longrightarrow>
   sample_center_points g lib gen y m k True =
     and_then (notice_k g k) (\<lambda>ws1.
     and_then (resolve_method g lib m ws1) (\<lambda>(ws, f).
     and_then (f gen (butlast (tl (sort (ravel y)))) (k - 2)) (\<lambda>cc.
       Inr (ws, [Min (set (ravel y)), Max (set (ravel y))] @ ravel cc))))"
  by (simp add: sample_center_points_def reserve_edges_True np_append_def)

lemma sample_center_points_no_edges:
  "sample_center_points g lib gen y m k False =
     and_then (notice_k g k) (\<lambda>ws1.
     and_then (resolve_method g lib m ws1) (\<lambda>(ws, f).
     and_then (f gen (ravel y) k) (\<lambda>cc. Inr (ws, ravel cc))))"
  by (simp add: sample_center_points_def reserve_edges_False np_append_def)

text \<open>
  C2.  For every non-empty targets array, every way of selecting the strategy and every
  \<open>k\<close>: when \<open>keep_edges\<close> is true, every array that \<open>sample_center_points\<close> returns
  contains the minimum and the maximum of the input.  On the path without deprecation
  notices (a sampler function, \<open>k = 100\<close>) the call returns whenever the sampler does,
  with the two edges first.
\<close>

theorem keep_edges_min_max_in_result:
  "ravel y \<noteq> [] \<Longrightarrow>
   (\<forall>ws cs. sample_center_points g lib gen y m k True = Inr (ws, cs) \<longrightarrow>
      Min (set (ravel y)) \<in> set cs \<and> Max (set (ravel y)) \<in> set cs)
   \<and> (\<forall>f cc. f gen (butlast (tl (sort (ravel y)))) 98 = Inr cc \<longrightarrow>
        sample_center_points kmn_globals lib gen y (ByFunction f) 100 True
          = Inr ([], [Min (set (ravel y)), Max (set (ravel y))] @ ravel cc))"
proof (intro conjI allI impI)
  fix ws cs
  assume y: "ravel y \<noteq> []"
    and r: "sample_center_points g lib gen y m k True = Inr (ws, cs)"
  from r obtain cc where "cs = [Min (set (ravel y)), Max (set (ravel y))] @ ravel cc"
    unfolding sample_center_points_keep_edges [OF y]
    by (auto simp: and_then_Inr_iff)
  then show "Min (set (ravel y)) \<in> set cs" and "Max (set (ravel y)) \<in> set cs"
    by simp_all
next
  fix f :: sampler and cc
  assume y: "ravel y \<noteq> []"
    and f: "f gen (butlast (tl (sort (ravel y)))) 98 = Inr cc"
  show "sample_center_points kmn_globals lib gen y (ByFunction f) 100 True
          = Inr ([], [Min (set (ravel y)), Max (set (ravel y))] @ ravel cc)"
    unfolding sample_center_points_keep_edges [OF y]
    by (simp add: notice_k_100 f)
qed

theorem keep_edges_min_max_in_result_witness:
  "ravel (Arr1 [3, 1, 2]) \<noteq> []
   \<and> sample_center_points kmn_globals example_sklearn example_gen (Arr1 [3, 1, 2])
        (ByFunction all_sampler) 100 True = Inr ([], [1, 3, 2])
   \<and> Min (set (ravel (Arr1 [3, 1, 2]))) \<in> set [1, 3, 2 :: real]
   \<and> Max (set (ravel (Arr1 [3, 1, 2]))) \<in> set [1, 3, 2 :: real]"
proof -
  have y: "ravel (Arr1 [3, 1, 2]) \<noteq> []" by simp
  have f: "all_sampler example_gen (butlast (tl (sort (ravel (Arr1 [3, 1, 2]))))) 98
      = Inr (Arr1 [2])"
    by (simp add: all_sampler_def)
  have m: "Min (set (ravel (Arr1 [3, 1, 2]))) = 1" "Max (set (ravel (Arr1 [3, 1, 2]))) = 3"
    by simp_all
  from keep_edges_min_max_in_result [OF y, of kmn_globals example_sklearn example_gen
      "ByFunction all_sampler" 100] f
  have r: "sample_center_points kmn_globals example_sklearn example_gen (Arr1 [3, 1, 2])
        (ByFunction all_sampler) 100 True = Inr ([], [1, 3, 2])"
    and "\<forall>ws cs. sample_center_points kmn_globals example_sklearn example_gen (Arr1 [3, 1, 2])
        (ByFunction all_sampler) 100 True = Inr (ws, cs) \<longrightarrow>
      Min (set (ravel (Arr1 [3, 1, 2]))) \<in> set cs \<and> Max (set (ravel (Arr1 [3, 1, 2]))) \<in> set cs"
    unfolding m by auto
  then show ?thesis using y by blast
qed

lemma warn_unbound: "warn kmn_globals msg ws = Inl (NameError ''warnings'')"
  by (simp add: warn_def kmn_globals_def)

lemma warn_bound: "''warnings'' \<in> set g \<Longrightarrow> warn g msg ws = Inr (ws @ [DeprecationWarning msg])"
  by (simp add: warn_def)

lemma notice_k_bound:
  "''warnings'' \<in> set g \<Longrightarrow> k \<noteq> 100 \<Longrightarrow> notice_k g k = Inr [DeprecationWarning msg_k]"
  by (simp add: notice_k_def warn_def)

lemma notice_k_unbound: "k \<noteq> 100 \<Longrightarrow> notice_k kmn_globals k = Inl (NameError ''warnings'')"
  by (simp add: notice_k_def warn_unbound)

lemma by_name_unbound:
  "sample_center_points kmn_globals lib gen y (ByName name) k keep_edges
     = Inl (NameError ''warnings'')"
  by (cases "k = 100") (simp_all add: sample_center_points_def notice_k_def warn_unbound)

lemma explicit_k_unbound:
  "k \<noteq> 100 \<Longrightarrow>
   sample_center_points kmn_globals lib gen y m k keep_edges = Inl (NameError ''warnings'')"
  by (simp add: sample_center_points_def notice_k_unbound)

lemma sampler_from_name_unknown:
  "name \<notin> {''random'', ''distance'', ''k_means'', ''agglomerative''} \<Longrightarrow>
   sampler_from_name lib (Some name) = Inl (ValueError (''unknown method '' @ name))"
  by (simp add: sampler_from_name_def registry_def)

lemma sampler_from_name_known:
  "sampler_from_name lib (Some ''random'') = Inr random_sampler"
  "sampler_from_name lib (Some ''distance'') = Inr distance_sampler"
  "sampler_from_name lib (Some ''k_means'') = Inr (k_means_sampler lib)"
  "sampler_from_name lib (Some ''agglomerative'') = Inr (agglomerative_sampler lib)"
  "sampler_from_name lib None = Inr all_sampler"
  by (simp_all add: sampler_from_name_def registry_def)

text \<open>The design of the deprecated paths, in a namespace that binds \<open>warnings\<close>.\<close>

lemma by_name_in_repaired_namespace:
  assumes "''warnings'' \<in> set g" "sampler_from_name lib name = Inr f"
  shows "sample_center_points g lib gen y (ByName name) 100 keep_edges =
     and_then (sample_center_points g lib gen y (ByFunction f) 100 keep_edges)
       (\<lambda>(ws, cs). Inr (ws @ [DeprecationWarning msg_method], cs))"
proof (cases "reserve_edges keep_edges (ravel y) 100")
  case (Inl e)
  then show ?thesis
    using assms by (simp add: sample_center_points_def notice_k_100 warn_bound)
next
  case (Inr t)
  obtain centers y' k' where t: "t = (centers, y', k')" by (cases t) auto
  show ?thesis
    using assms Inr t
    by (cases "f gen y' k'")
      (simp_all add: sample_center_points_def notice_k_100 warn_bound)
qed

lemma unknown_name_in_repaired_namespace:
  assumes "''warnings'' \<in> set g"
    "name \<notin> {''random'', ''distance'', ''k_means'', ''agglomerative''}"
  shows "sample_center_points g lib gen y (ByName (Some name)) k keep_edges
     = Inl (ValueError (''unknown method '' @ name))"
  using assms
  by (cases "k = 100")
    (simp_all add: sample_center_points_def notice_k_def warn_bound sampler_from_name_unknown)

text \<open>
  C1.  In the module as it is written, a call through a deprecated parameter path does
  not return what the direct call returns: selecting the strategy by name (a string or
  \<open>None\<close>) raises \<open>NameError\<close> for every input, and so does an explicit \<open>k = 5\<close>,
  where the same call with a sampler function and \<open>k = 100\<close> returns the centers.
\<close>

theorem deprecated_paths_raise_NameError:
  "sample_center_points kmn_globals lib gen y (ByName name) k keep_edges
     = Inl (NameError ''warnings'')
   \<and> sample_center_points kmn_globals lib gen (Arr1 [1, 2, 3]) (ByFunction all_sampler) 5 False
     = Inl (NameError ''warnings'')
   \<and> sample_center_points kmn_globals lib gen (Arr1 [1, 2, 3]) (ByFunction all_sampler) 100 False
     = Inr ([], [1, 2, 3])"
proof (intro conjI)
  show "sample_center_points kmn_globals lib gen y (ByName name) k keep_edges
     = Inl (NameError ''warnings'')"
    by (rule by_name_unbound)
  show "sample_center_points kmn_globals lib gen (Arr1 [1, 2, 3]) (ByFunction all_sampler) 5 False
     = Inl (NameError ''warnings'')"
    by (simp add: explicit_k_unbound)
  show "sample_center_points kmn_globals lib gen (Arr1 [1, 2, 3]) (ByFunction all_sampler) 100 False
     = Inr ([], [1, 2, 3])"
    by (simp add: sample_center_points_no_edges notice_k_100 all_sampler_def)
qed

text \<open>
  C6.  In the module as it is written, \<open>sample_center_points\<close> with the unregistered
  name \<open>bogus\<close> raises \<open>NameError\<close> for \<open>warnings\<close> before the lookup runs, although
  the lookup \<open>sampler_from_name\<close> itself raises \<open>ValueError\<close> with the message
  \<open>unknown method bogus\<close>.
\<close>

theorem unknown_name_raises_NameError:
  "sample_center_points kmn_globals lib gen y (ByName (Some ''bogus'')) k keep_edges
     = Inl (NameError ''warnings'')
   \<and> sampler_from_name lib (Some ''bogus'') = Inl (ValueError ''unknown method bogus'')"
  by (simp add: by_name_unbound sampler_from_name_unknown)

text \<open>
  C10.  With \<open>keep_edges\<close> true and a non-empty input, the sampler that the call resolves
  receives the sorted copy without its first and last element, and the edges are the
  minimum and the maximum.  For two or more values the interior together with one minimum
  and one maximum is the input as a multiset, so exactly one occurrence of each extreme
  is removed and further duplicates of them stay in the interior.  For a single value
  \<open>v\<close> the edge pair is \<open>v, v\<close> and the interior is empty.
\<close>

theorem edge_trimming_removes_one_min_one_max:
  "ravel y \<noteq> [] \<Longrightarrow>
   sample_center_points g lib gen y m k True =
     and_then (notice_k g k) (\<lambda>ws1.
     and_then (resolve_method g lib m ws1) (\<lambda>(ws, f).
     and_then (f gen (butlast (tl (sort (ravel y)))) (k - 2)) (\<lambda>cc.
       Inr (ws, [Min (set (ravel y)), Max (set (ravel y))] @ ravel cc))))
   \<and> (2 \<le> length (ravel y) \<longrightarrow>
        mset (butlast (tl (sort (ravel y)))) + {#Min (set (ravel y)), Max (set (ravel y))#}
          = mset (ravel y))
   \<and> (\<forall>v. ravel y = [v] \<longrightarrow>
        butlast (tl (sort (ravel y))) = []
        \<and> [Min (set (ravel y)), Max (set (ravel y))] = [v, v])"
proof (intro conjI impI allI)
  assume y: "ravel y \<noteq> []"
  show "sample_center_points g lib gen y m k True =
     and_then (notice_k g k) (\<lambda>ws1.
     and_then (resolve_method g lib m ws1) (\<lambda>(ws, f).
     and_then (f gen (butlast (tl (sort (ravel y)))) (k - 2)) (\<lambda>cc.
       Inr (ws, [Min (set (ravel y)), Max (set (ravel y))] @ ravel cc))))"
    by (rule sample_center_points_keep_edges [OF y])
next
  assume y: "ravel y \<noteq> []" and l: "2 \<le> length (ravel y)"
  have "mset (butlast (tl (sort (ravel y)))) + {#hd (sort (ravel y)), last (sort (ravel y))#}
      = mset (sort (ravel y))"
    using l by (intro mset_interior) simp
  then show "mset (butlast (tl (sort (ravel y)))) + {#Min (set (ravel y)), Max (set (ravel y))#}
          = mset (ravel y)"
    by (simp add: hd_sort_Min [OF y] last_sort_Max [OF y])
next
  fix v
  assume "ravel y = [v]"
  then show "butlast (tl (sort (ravel y))) = []"
    and "[Min (set (ravel y)), Max (set (ravel y))] = [v, v]"
    by simp_all
qed

theorem edge_trimming_removes_one_min_one_max_witness:
  "ravel (Arr1 [3, 1, 1, 3, 2]) \<noteq> []
   \<and> sample_center_points kmn_globals example_sklearn example_gen (Arr1 [3, 1, 1, 3, 2])
        (ByFunction all_sampler) 100 True = Inr ([], [1, 3, 1, 2, 3])
   \<and> mset [1, 2, 3] + {#1, 3#} = mset [3, 1, 1, 3, 2 :: real]
   \<and> sample_center_points kmn_globals example_sklearn example_gen (Arr1 [7])
        (ByFunction all_sampler) 100 True = Inr ([], [7, 7])"
proof -
  have y: "ravel (Arr1 [3, 1, 1, 3, 2]) \<noteq> []" and y': "ravel (Arr1 [7]) \<noteq> []" by simp_all
  have s: "sort (ravel (Arr1 [3, 1, 1, 3, 2])) = [1, 1, 2, 3, 3]" by simp
  have m: "Min (set (ravel (Arr1 [3, 1, 1, 3, 2]))) = 1"
    "Max (set (ravel (Arr1 [3, 1, 1, 3, 2]))) = 3"
    by simp_all
  from edge_trimming_removes_one_min_one_max [OF y, of kmn_globals example_sklearn example_gen
      "ByFunction all_sampler" 100]
  have "sample_center_points kmn_globals example_sklearn example_gen (Arr1 [3, 1, 1, 3, 2])
        (ByFunction all_sampler) 100 True = Inr ([], [1, 3, 1, 2, 3])"
    and "mset [1, 2, 3] + {#1, 3#} = mset [3, 1, 1, 3, 2 :: real]"
    unfolding s m by (simp_all add: notice_k_100 all_sampler_def)
  moreover
  from edge_trimming_removes_one_min_one_max [OF y', of kmn_globals example_sklearn example_gen
      "ByFunction all_sampler" 100]
  have "sample_center_points kmn_globals example_sklearn example_gen (Arr1 [7])
        (ByFunction all_sampler) 100 True = Inr ([], [7, 7])"
    by (simp add: notice_k_100 all_sampler_def)
  ultimately show ?thesis using y by blast
qed

text \<open>
  C4 as stated fails.  With \<open>keep_edges\<close> true and \<open>k = 1\<close> the module as written raises
  \<open>NameError\<close>, the error it raises for the valid \<open>k = 4\<close> as well; where \<open>warnings\<close> is
  bound the call returns, and the sampler is handed the budget \<open>-1\<close>.
\<close>

theorem keep_edges_small_k_counterexample:
  "sample_center_points kmn_globals example_sklearn example_gen (Arr1 [1, 2, 3])
      (ByFunction all_sampler) 1 True = Inl (NameError ''warnings'')
   \<and> sample_center_points kmn_globals example_sklearn example_gen (Arr1 [1, 2, 3])
      (ByFunction all_sampler) 4 True = Inl (NameError ''warnings'')
   \<and> sample_center_points (''warnings'' # kmn_globals) example_sklearn example_gen
      (Arr1 [1, 2, 3]) (ByFunction all_sampler) 1 True
        = Inr ([DeprecationWarning msg_k], [1, 3, 2])
   \<and> sample_center_points (''warnings'' # kmn_globals) example_sklearn example_gen
      (Arr1 [1, 2, 3]) (ByFunction budget_probe) 1 True
        = Inr ([DeprecationWarning msg_k], [1, 3, - 1])"
  by (simp add: sample_center_points_keep_edges notice_k_unbound notice_k_bound
      all_sampler_def budget_probe_def)

text \<open>
  C4, amended.  \<open>sample_center_points\<close> has no check of \<open>k\<close>.  With \<open>keep_edges\<close> true,
  \<open>k < 2\<close> and a non-empty input, the call emits the deprecation notice for \<open>k\<close>, reserves
  the two edges and invokes the sampler on the interior with the negative budget
  \<open>k - 2\<close>; past the notice, the outcome of the call is the sampler's, with the edges in
  front.
\<close>

theorem keep_edges_small_k_not_guarded:
  "k < 2 \<Longrightarrow> ravel y \<noteq> [] \<Longrightarrow>
   sample_center_points g lib gen y (ByFunction f) k True =
     and_then (warn g msg_k []) (\<lambda>ws.
     and_then (f gen (butlast (tl (sort (ravel y)))) (k - 2)) (\<lambda>cc.
       Inr (ws, [Min (set (ravel y)), Max (set (ravel y))] @ ravel cc)))
   \<and> k - 2 < 0"
  by (simp add: sample_center_points_keep_edges notice_k_def)

theorem keep_edges_small_k_not_guarded_witness:
  "(1 :: int) < 2 \<and> ravel (Arr1 [1, 2, 3]) \<noteq> []
   \<and> sample_center_points (''warnings'' # kmn_globals) example_sklearn example_gen
        (Arr1 [1, 2, 3]) (ByFunction all_sampler) 1 True
        = Inr ([DeprecationWarning msg_k], [1, 3, 2])"
proof -
  have k: "(1 :: int) < 2" by simp
  have y: "ravel (Arr1 [1, 2, 3]) \<noteq> []" by simp
  from keep_edges_small_k_not_guarded [OF k y, of "''warnings'' # kmn_globals" example_sklearn
      example_gen all_sampler]
  show ?thesis by (simp add: all_sampler_def warn_def)
qed

text \<open>
  C5 as stated fails.  With \<open>k = 0\<close> the module as written raises \<open>NameError\<close>, the error
  it raises for the valid \<open>k = 4\<close> as well; where \<open>warnings\<close> is bound the identity
  strategy returns all targets for \<open>k = 0\<close> and for \<open>k = -1\<close>.
\<close>

theorem nonpositive_k_counterexample:
  "sample_center_points kmn_globals example_sklearn example_gen (Arr1 [1, 2, 3])
      (ByFunction all_sampler) 0 False = Inl (NameError ''warnings'')
   \<and> sample_center_points kmn_globals example_sklearn example_gen (Arr1 [1, 2, 3])
      (ByFunction all_sampler) 4 False = Inl (NameError ''warnings'')
   \<and> sample_center_points (''warnings'' # kmn_globals) example_sklearn example_gen
      (Arr1 [1, 2, 3]) (ByFunction all_sampler) 0 False
        = Inr ([DeprecationWarning msg_k], [1, 2, 3])
   \<and> sample_center_points (''warnings'' # kmn_globals) example_sklearn example_gen
      (Arr1 [1, 2, 3]) (ByName None) (- 1) False
        = Inr ([DeprecationWarning msg_k, DeprecationWarning msg_method], [1, 2, 3])"
  by (simp add: sample_center_points_no_edges notice_k_unbound notice_k_bound warn_bound
      sampler_from_name_known all_sampler_def)

text \<open>
  C5, amended.  \<open>sample_center_points\<close> has no check of \<open>k\<close>.  For \<open>k \<le> 0\<close> the call
  emits the deprecation notice for \<open>k\<close> and invokes the sampler with that \<open>k\<close>; past the
  notice, the outcome of the call is the sampler's, and the identity strategy returns all
  targets.
\<close>

theorem nonpositive_k_not_guarded:
  "k \<le> 0 \<Longrightarrow>
   sample_center_points g lib gen y (ByFunction f) k False =
     and_then (warn g msg_k []) (\<lambda>ws.
     and_then (f gen (ravel y) k) (\<lambda>cc. Inr (ws, ravel cc)))
   \<and> sample_center_points g lib gen y (ByFunction all_sampler) k False =
     and_then (warn g msg_k []) (\<lambda>ws. Inr (ws, ravel y))"
  by (simp add: sample_center_points_no_edges notice_k_def all_sampler_def)

theorem nonpositive_k_not_guarded_witness:
  "(0 :: int) \<le> 0
   \<and> sample_center_points (''warnings'' # kmn_globals) example_sklearn example_gen
        (Arr1 [1, 2, 3]) (ByFunction all_sampler) 0 False
        = Inr ([DeprecationWarning msg_k], [1, 2, 3])"
proof -
  have k: "(0 :: int) \<le> 0" by simp
  from nonpositive_k_not_guarded [OF k, of "''warnings'' # kmn_globals" example_sklearn
      example_gen "Arr1 [1, 2, 3]" all_sampler]
  show ?thesis by (simp add: warn_def all_sampler_def)
qed

lemma and_then_assoc:
  "and_then (and_then a f) h = and_then a (\<lambda>x. and_then (f x) h)"
  by (cases a) auto

lemma sample_center_points_resolved:
  assumes "and_then (notice_k g k) (resolve_method g lib m) = Inr (ws, s)"
  shows "sample_center_points g lib gen y m k keep_edges =
     and_then (reserve_edges keep_edges (ravel y) k) (\<lambda>(centers, y', k').
     and_then (s gen y' k') (\<lambda>cc. Inr (ws, np_append centers cc)))"
proof -
  have "sample_center_points g lib gen y m k keep_edges =
     and_then (and_then (notice_k g k) (resolve_method g lib m)) (\<lambda>(ws, f).
     and_then (reserve_edges keep_edges (ravel y) k) (\<lambda>(centers, y', k').
     and_then (f gen y' k') (\<lambda>cc. Inr (ws, np_append centers cc))))"
    by (simp add: sample_center_points_def and_then_assoc)
  then show ?thesis by (simp add: assms)
qed

lemma length_concat_rows:
  "list_all (\<lambda>row. length row = 1) c \<Longrightarrow> length (concat c) = length c"
  by (induction c) auto

lemma length_groupby_mean: "length (groupby_mean y labels) = length (sort (remdups labels))"
  by (simp add: groupby_mean_def)

lemma random_sampler_length:
  assumes "rng_outcome (gen (length y)) (length y)" "y \<noteq> []" "0 \<le> k" "k \<le> int (length y)"
  shows "\<exists>out. random_sampler gen y k = Inr (Arr1 out) \<and> int (length out) = k"
proof -
  from assms(3,4) have "nat k \<le> length y" by linarith
  from rng_outcome_take [OF assms(1) this]
  have "length (take (nat k) (gen (length y))) = nat k" by simp
  with assms(2,3,4) show ?thesis
    by (simp add: random_sampler_def np_random_choice_def)
qed

lemma k_means_sampler_length:
  assumes "kmeans_returns_k lib k y"
  shows "\<exists>out. k_means_sampler lib gen y k = Inr out \<and> int (length (ravel out)) = k"
  using assms
  by (auto simp: kmeans_returns_k_def k_means_sampler_def length_concat_rows split: sum.splits)

lemma agglomerative_sampler_length:
  assumes "agglomerative_labels_k lib k y"
  shows "\<exists>out. agglomerative_sampler lib gen y k = Inr out \<and> int (length (ravel out)) = k"
  using assms
  by (auto simp: agglomerative_labels_k_def agglomerative_sampler_def length_groupby_mean
      split: sum.splits)

text \<open>
  The count by design.  Once lines 60 to 65 have handed over the sampler \<open>s\<close>, and where
  the generator's outcome (for \<open>random\<close>, on a population that is not empty) or the
  estimator's answer (for the two clustering strategies) is as documented, a valid
  request returns exactly \<open>k\<close> centers: the sampler's \<open>k\<close> values, or its \<open>k - 2\<close> values
  behind the two reserved edges.
\<close>

lemma center_count_past_the_notices:
  fixes y :: ndarray and keep_edges :: bool and k :: int
  defines "y' \<equiv> if keep_edges then butlast (tl (sort (ravel y))) else ravel y"
    and "k' \<equiv> if keep_edges then k - 2 else k"
  assumes sel: "and_then (notice_k g k) (resolve_method g lib m) = Inr (ws, s)"
    and valid: "valid_k keep_edges (length (ravel y)) k"
    and strat: "s = random_sampler \<and> rng_outcome (gen (length y')) (length y') \<and> y' \<noteq> []
      \<or> s = k_means_sampler lib \<and> kmeans_returns_k lib k' y'
      \<or> s = agglomerative_sampler lib \<and> agglomerative_labels_k lib k' y'"
  shows "\<exists>edges out. sample_center_points g lib gen y m k keep_edges = Inr (ws, edges @ out)
      \<and> length edges = (if keep_edges then 2 else 0)
      \<and> int (length out) = k'
      \<and> int (length (edges @ out)) = k"
proof -
  from valid have ne: "ravel y \<noteq> []" and k0: "0 \<le> k'"
    by (auto simp: valid_k_def k'_def split: if_splits)
  from valid have kl: "k' \<le> int (length y')"
    by (auto simp: valid_k_def k'_def y'_def split: if_splits)
  have "\<exists>out. s gen y' k' = Inr out \<and> int (length (ravel out)) = k'"
    using strat
  proof (elim disjE conjE)
    assume "s = random_sampler" "rng_outcome (gen (length y')) (length y')" "y' \<noteq> []"
    with random_sampler_length [OF _ _ k0 kl] show ?thesis by fastforce
  next
    assume "s = k_means_sampler lib" "kmeans_returns_k lib k' y'"
    with k_means_sampler_length show ?thesis by simp
  next
    assume "s = agglomerative_sampler lib" "agglomerative_labels_k lib k' y'"
    with agglomerative_sampler_length show ?thesis by simp
  qed
  then obtain out where out: "s gen y' k' = Inr out" "int (length (ravel out)) = k'"
    by blast
  define edges where "edges = (if keep_edges then [Min (set (ravel y)), Max (set (ravel y))] else [])"
  have "reserve_edges keep_edges (ravel y) k = Inr (edges, y', k')"
    using ne by (simp add: edges_def y'_def k'_def reserve_edges_True reserve_edges_False)
  then have "sample_center_points g lib gen y m k keep_edges = Inr (ws, edges @ ravel out)"
    by (simp add: sample_center_points_resolved [OF sel] out(1) np_append_def)
  moreover have "length edges = (if keep_edges then 2 else 0)"
    by (simp add: edges_def)
  moreover have "int (length (edges @ ravel out)) = k"
    using out(2) by (simp add: edges_def k'_def)
  ultimately show ?thesis using out(2) by blast
qed

text \<open>
  C3.  In the module as it is written, a valid request does not return \<open>k\<close> centers.
  The example of the specification (targets 10, 20, 30, 40, 50 with \<open>k = 4\<close> and
  \<open>keep_edges\<close>, strategy \<open>random\<close>) raises \<open>NameError\<close>, with the sampler given as a
  function and by name, and so does the request of line 227 (\<open>k_means\<close> by name,
  \<open>k = 20\<close>) for every targets array.  Where \<open>warnings\<close> is bound the example returns
  four centers: the two edges and two of the interior values.
\<close>

theorem valid_request_raises_NameError:
  "sample_center_points kmn_globals lib gen (Arr1 [10, 20, 30, 40, 50])
      (ByFunction random_sampler) 4 True = Inl (NameError ''warnings'')
   \<and> sample_center_points kmn_globals lib gen (Arr1 [10, 20, 30, 40, 50])
      (ByName (Some ''random'')) 4 True = Inl (NameError ''warnings'')
   \<and> sample_center_points kmn_globals lib gen y (ByName (Some ''k_means'')) 20 False
      = Inl (NameError ''warnings'')
   \<and> sample_center_points (''warnings'' # kmn_globals) example_sklearn example_gen
      (Arr1 [10, 20, 30, 40, 50]) (ByFunction random_sampler) 4 True
        = Inr ([DeprecationWarning msg_k], [10, 50, 40, 30])"
proof (intro conjI)
  show "sample_center_points kmn_globals lib gen (Arr1 [10, 20, 30, 40, 50])
      (ByFunction random_sampler) 4 True = Inl (NameError ''warnings'')"
    by (simp add: explicit_k_unbound)
  show "sample_center_points kmn_globals lib gen (Arr1 [10, 20, 30, 40, 50])
      (ByName (Some ''random'')) 4 True = Inl (NameError ''warnings'')"
    by (rule by_name_unbound)
  show "sample_center_points kmn_globals lib gen y (ByName (Some ''k_means'')) 20 False
      = Inl (NameError ''warnings'')"
    by (rule by_name_unbound)
  have "sort [10, 20, 30, 40, 50 :: real] = [10, 20, 30, 40, 50]" by simp
  then show "sample_center_points (''warnings'' # kmn_globals) example_sklearn example_gen
      (Arr1 [10, 20, 30, 40, 50]) (ByFunction random_sampler) 4 True
        = Inr ([DeprecationWarning msg_k], [10, 50, 40, 30])"
    by (simp add: sample_center_points_keep_edges notice_k_bound random_sampler_def
        np_random_choice_def example_gen_def upt_rec)
qed

subsection \<open>The caller's array\<close>

lemma extends_iff: "extends st st' \<longleftrightarrow> (\<exists>zs. st' = st @ zs)"
  unfolding extends_def
proof
  assume "take (length st) st' = st"
  then have "st' = st @ drop (length st) st'" by (metis append_take_drop_id)
  then show "\<exists>zs. st' = st @ zs" ..
next
  assume "\<exists>zs. st' = st @ zs"
  then show "take (length st) st' = st" by auto
qed

lemma extends_refl: "extends st st"
  by (simp add: extends_def)

lemma extends_trans: "extends a b \<Longrightarrow> extends b c \<Longrightarrow> extends a c"
  by (auto simp: extends_iff)

lemma extends_nth: "extends st st' \<Longrightarrow> i < length st \<Longrightarrow> st' ! i = st ! i"
  by (auto simp: extends_iff nth_append)

lemma extends_contents:
  "extends st st' \<Longrightarrow> addr a < length st \<Longrightarrow> contents st' a = contents st a"
  by (simp add: contents_def extends_nth)

lemma frame_safe_returns: "frame_safe (returns x)"
  by (simp add: frame_safe_def returns_def extends_refl)

lemma frame_safe_raises: "frame_safe (raises e)"
  by (simp add: frame_safe_def raises_def extends_refl)

lemma frame_safe_outcome: "frame_safe (outcome r)"
  by (simp add: frame_safe_def outcome_def extends_refl)

lemma frame_safe_read_array: "frame_safe (read_array a)"
  by (simp add: frame_safe_def read_array_def extends_refl)

lemma frame_safe_new_array: "frame_safe (new_array xs)"
  by (simp add: frame_safe_def new_array_def extends_def)

lemma frame_safe_next_do_result:
  assumes "frame_safe m" "\<And>x st st'. m st = (st', Inr x) \<Longrightarrow> frame_safe (f x)"
  shows "frame_safe (next_do m f)"
  unfolding frame_safe_def
proof
  fix st
  obtain st' r where m: "m st = (st', r)" by (cases "m st")
  from assms(1) have "extends st (fst (m st))" unfolding frame_safe_def ..
  with m have 1: "extends st st'" by simp
  show "extends st (fst (next_do m f st))"
  proof (cases r)
    case (Inl e)
    with m 1 show ?thesis by (simp add: next_do_def)
  next
    case (Inr x)
    with m have "frame_safe (f x)" by (intro assms(2)) simp
    then have "extends st' (fst (f x st'))" unfolding frame_safe_def ..
    with 1 have "extends st (fst (f x st'))" by (rule extends_trans)
    with m Inr show ?thesis by (simp add: next_do_def)
  qed
qed

lemma frame_safe_next_do:
  assumes "frame_safe m" "\<And>x. frame_safe (f x)"
  shows "frame_safe (next_do m f)"
  using assms by (intro frame_safe_next_do_result)

lemmas frame_safe_intros =
  frame_safe_next_do frame_safe_returns frame_safe_raises frame_safe_outcome
  frame_safe_read_array frame_safe_new_array

lemma frame_safe_builtin: "frame_safe (builtin_st lib b gen y k)"
  by (cases b)
    (auto simp: random_sampler_st_def all_sampler_st_def k_means_sampler_st_def
      agglomerative_sampler_st_def distance_sampler_st_def fixed_sampler_st_def
      intro!: frame_safe_intros)

lemma sampler_from_name_st_builtin:
  assumes "sampler_from_name_st lib name = Inr f"
  shows "\<exists>b. f = builtin_st lib b"
proof -
  from assms have "f \<in> {random_sampler_st, distance_sampler_st, k_means_sampler_st lib,
      agglomerative_sampler_st lib, all_sampler_st}"
    by (auto simp: sampler_from_name_st_def registry_st_def split: if_splits option.splits)
  then show ?thesis
    by (metis builtin_st.simps insertE singletonD)
qed

lemma resolve_method_st_builtin:
  assumes "resolve_method_st g lib (method_on_store lib m) ws = Inr (ws', f)"
  shows "\<exists>b. f = builtin_st lib b"
  using assms
  by (cases m) (auto simp: and_then_Inr_iff dest: sampler_from_name_st_builtin)

lemma frame_safe_reserve_edges_st: "frame_safe (reserve_edges_st keep_edges centers y k)"
  by (auto simp: reserve_edges_st_def np_sort_def intro!: frame_safe_intros)

lemma frame_safe_np_append_st: "frame_safe (np_append_st a b)"
  by (auto simp: np_append_st_def intro!: frame_safe_intros)

lemma frame_safe_sample_center_points_st:
  "frame_safe (sample_center_points_st g lib gen y (method_on_store lib m) k keep_edges)"
  unfolding sample_center_points_st_def
proof (rule frame_safe_next_do)
  show "frame_safe (outcome (notice_k g k))"
    by (rule frame_safe_outcome)
next
  fix ws1
  show "frame_safe (next_do (outcome (resolve_method_st g lib (method_on_store lib m) ws1)) (\<lambda>(ws, f).
      next_do (new_array []) (\<lambda>centers.
      next_do (reserve_edges_st keep_edges centers y k) (\<lambda>(centers, y', k').
      next_do (f gen y' k') (\<lambda>cluster_centers.
      next_do (np_append_st centers cluster_centers) (\<lambda>r. returns (ws, r)))))))"
  proof (rule frame_safe_next_do_result)
    show "frame_safe (outcome (resolve_method_st g lib (method_on_store lib m) ws1))"
      by (rule frame_safe_outcome)
  next
    fix x st st'
    assume "outcome (resolve_method_st g lib (method_on_store lib m) ws1) st = (st', Inr x)"
    then have r: "resolve_method_st g lib (method_on_store lib m) ws1 = Inr x" by (simp add: outcome_def)
    obtain ws f where x: "x = (ws, f)" by (cases x)
    with r obtain b' where f: "f = builtin_st lib b'"
      using resolve_method_st_builtin by blast
    show "frame_safe (case x of (ws, f) \<Rightarrow>
        next_do (new_array []) (\<lambda>centers.
        next_do (reserve_edges_st keep_edges centers y k) (\<lambda>(centers, y', k').
        next_do (f gen y' k') (\<lambda>cluster_centers.
        next_do (np_append_st centers cluster_centers) (\<lambda>r. returns (ws, r))))))"
      unfolding x f
      by (auto intro!: frame_safe_intros frame_safe_reserve_edges_st frame_safe_builtin
          frame_safe_np_append_st)
  qed
qed

lemma contents_new:
  "n = length xs \<Longrightarrow> contents (st @ [xs]) \<lparr>addr = length st, lo = 0, n_elems = n\<rparr> = xs"
  by (simp add: contents_def)

lemma contents_slice:
  "lo a = 0 \<Longrightarrow> n_elems a = length (st ! addr a) \<Longrightarrow>
   contents st (slice_1_minus_1 a) = butlast (tl (st ! addr a))"
  by (simp add: contents_def slice_1_minus_1_def butlast_conv_take drop_Suc numeral_2_eq_2)

lemma sampler_refinesD:
  assumes "sampler_refines fs f" "addr y < length st" "fs gen y k st = (st', r)"
  shows "case r of
      Inl e \<Rightarrow> f gen (contents st y) k = Inl e
    | Inr a \<Rightarrow> addr a < length st' \<and>
        (\<exists>out. f gen (contents st y) k = Inr out \<and> contents st' a = ravel out)"
  using assms(1) [unfolded sampler_refines_def, rule_format, OF assms(2), of gen k] assms(3)
  by simp

lemma builtin_refines: "sampler_refines (builtin_st lib b) (builtin_sampler lib b)"
  unfolding sampler_refines_def
  apply (cases b)
  apply (auto simp: random_sampler_st_def random_sampler_def next_do_def read_array_def outcome_def new_array_def contents_new
   all_sampler_st_def all_sampler_def returns_def k_means_sampler_st_def k_means_sampler_def agglomerative_sampler_st_def agglomerative_sampler_def
   distance_sampler_st_def distance_sampler_def raises_def fixed_sampler_st_def fixed_sampler_def and_then_Inr_iff and_then_Inl_iff
  split: sum.splits)
  done


lemma reserve_edges_st_refines:
  assumes "addr y < length st" "addr c < length st" "contents st c = []"
  shows "case reserve_edges_st ke c y k st of
      (st', Inl e) \<Rightarrow> extends st st' \<and> reserve_edges ke (contents st y) k = Inl e
    | (st', Inr (c', y', k')) \<Rightarrow>
        extends st st' \<and> addr c' < length st' \<and> addr y' < length st'
        \<and> reserve_edges ke (contents st y) k = Inr (contents st' c', contents st' y', k')"
proof (cases ke)
  case False
  with assms show ?thesis
    by (simp add: reserve_edges_st_def reserve_edges_def returns_def extends_refl)
next
  case True
  let ?s = "sort (contents st y)"
  let ?ys = "\<lparr>addr = length st, lo = 0, n_elems = length ?s\<rparr>"
  have sorted_copy: "np_sort y st = (st @ [?s], Inr ?ys)"
    by (simp add: np_sort_def next_do_def read_array_def new_array_def)
  have vals: "contents (st @ [?s]) ?ys = ?s"
    by (simp add: contents_new)
  show ?thesis
  proof (cases "?s = []")
    case Nil: True
    with \<open>ke\<close> sorted_copy vals show ?thesis
      by (simp add: reserve_edges_st_def reserve_edges_def next_do_def read_array_def
          raises_def extends_def)
  next
    case False
    have inner: "contents (st @ [?s, [hd ?s, last ?s]]) (slice_1_minus_1 ?ys) = butlast (tl ?s)"
      by (subst contents_slice) (simp_all add: nth_append)
    have edges: "contents (st @ [?s, [hd ?s, last ?s]])
        \<lparr>addr = Suc (length st), lo = 0, n_elems = Suc (Suc 0)\<rparr> = [hd ?s, last ?s]"
      using contents_new [of "Suc (Suc 0)" "[hd ?s, last ?s]" "st @ [?s]"] by simp
    from \<open>ke\<close> False sorted_copy vals inner edges show ?thesis
      by (simp add: reserve_edges_st_def reserve_edges_def next_do_def read_array_def
          raises_def returns_def new_array_def extends_def slice_1_minus_1_def Let_def)
  qed
qed


lemma sampler_from_name_st_refines:
  "(\<exists>b. sampler_from_name_st lib name = Inr (builtin_st lib b)
        \<and> sampler_from_name lib name = Inr (builtin_sampler lib b))
   \<or> (\<exists>e. sampler_from_name_st lib name = Inl e \<and> sampler_from_name lib name = Inl e)"
proof -
  consider "name = Some ''random''" | "name = Some ''distance''" | "name = Some ''k_means''"
    | "name = Some ''agglomerative''" | "name = None"
    | "name \<notin> {Some ''random'', Some ''distance'', Some ''k_means'', Some ''agglomerative'', None}"
    by blast
  then show ?thesis
  proof cases
    case 1
    then have "sampler_from_name_st lib name = Inr (builtin_st lib Random)
        \<and> sampler_from_name lib name = Inr (builtin_sampler lib Random)"
      by (simp add: sampler_from_name_st_def registry_st_def sampler_from_name_def registry_def)
    then show ?thesis by blast
  next
    case 2
    then have "sampler_from_name_st lib name = Inr (builtin_st lib Distance)
        \<and> sampler_from_name lib name = Inr (builtin_sampler lib Distance)"
      by (simp add: sampler_from_name_st_def registry_st_def sampler_from_name_def registry_def)
    then show ?thesis by blast
  next
    case 3
    then have "sampler_from_name_st lib name = Inr (builtin_st lib K_means)
        \<and> sampler_from_name lib name = Inr (builtin_sampler lib K_means)"
      by (simp add: sampler_from_name_st_def registry_st_def sampler_from_name_def registry_def)
    then show ?thesis by blast
  next
    case 4
    then have "sampler_from_name_st lib name = Inr (builtin_st lib Agglomerative)
        \<and> sampler_from_name lib name = Inr (builtin_sampler lib Agglomerative)"
      by (simp add: sampler_from_name_st_def registry_st_def sampler_from_name_def registry_def)
    then show ?thesis by blast
  next
    case 5
    then have "sampler_from_name_st lib name = Inr (builtin_st lib All)
        \<and> sampler_from_name lib name = Inr (builtin_sampler lib All)"
      by (simp add: sampler_from_name_st_def registry_st_def sampler_from_name_def registry_def)
    then show ?thesis by blast
  next
    case 6
    then have "sampler_from_name_st lib name = Inl (ValueError (''unknown method '' @ format_name name))
        \<and> sampler_from_name lib name = Inl (ValueError (''unknown method '' @ format_name name))"
      by (simp add: sampler_from_name_st_def registry_st_def sampler_from_name_def registry_def)
    then show ?thesis by blast
  qed
qed

lemma resolve_method_st_refines:
  "(\<exists>ws' b. resolve_method_st g lib (method_on_store lib m) ws = Inr (ws', builtin_st lib b)
        \<and> resolve_method g lib (method_on_values lib m) ws = Inr (ws', builtin_sampler lib b))
   \<or> (\<exists>e. resolve_method_st g lib (method_on_store lib m) ws = Inl e
        \<and> resolve_method g lib (method_on_values lib m) ws = Inl e)"
proof (cases m)
  case (ByFunction b)
  then show ?thesis by auto
next
  case (ByName name)
  show ?thesis
  proof (cases "warn g msg_method ws")
    case (Inl e)
    with ByName show ?thesis by simp
  next
    case (Inr ws')
    with ByName sampler_from_name_st_refines [of lib name] show ?thesis
      by auto
  qed
qed


text \<open>
  The function on the store computes what the function on values computes: it raises the
  same exception, or it returns an array that shows the centers that the function on
  values returns, with the same warnings.
\<close>

lemma sample_center_points_st_refines:
  assumes y: "addr y < length st"
  shows "case sample_center_points_st g lib gen y (method_on_store lib m) k ke st of
      (st', Inl e) \<Rightarrow>
        sample_center_points g lib gen (Arr1 (contents st y)) (method_on_values lib m) k ke
          = Inl e
    | (st', Inr (ws, r)) \<Rightarrow>
        sample_center_points g lib gen (Arr1 (contents st y)) (method_on_values lib m) k ke
          = Inr (ws, contents st' r)"
proof (cases "notice_k g k")
  case (Inl e)
  then show ?thesis
    by (simp add: sample_center_points_st_def sample_center_points_def next_do_def outcome_def)
next
  case (Inr ws1)
  from resolve_method_st_refines [of g lib m ws1] show ?thesis
  proof (elim disjE exE conjE)
    fix e
    assume "resolve_method_st g lib (method_on_store lib m) ws1 = Inl e"
      "resolve_method g lib (method_on_values lib m) ws1 = Inl e"
    with Inr show ?thesis
      by (simp add: sample_center_points_st_def sample_center_points_def next_do_def
          outcome_def)
  next
    fix ws b
    assume rs: "resolve_method_st g lib (method_on_store lib m) ws1 = Inr (ws, builtin_st lib b)"
      and rv: "resolve_method g lib (method_on_values lib m) ws1 = Inr (ws, builtin_sampler lib b)"
    let ?c = "\<lparr>addr = length st, lo = 0, n_elems = 0\<rparr>"
    let ?st1 = "st @ [[]]"
    have c: "addr ?c < length ?st1" "contents ?st1 ?c = []" and y1: "addr y < length ?st1"
      and cy: "contents ?st1 y = contents st y"
      using y by (simp_all add: contents_def nth_append)
    obtain st2 r2 where e2: "reserve_edges_st ke ?c y k ?st1 = (st2, r2)"
      by (cases "reserve_edges_st ke ?c y k ?st1")
    have start: "sample_center_points_st g lib gen y (method_on_store lib m) k ke st =
        (case r2 of Inl e \<Rightarrow> (st2, Inl e)
         | Inr (centers, y', k') \<Rightarrow>
            next_do (builtin_st lib b gen y' k') (\<lambda>cluster_centers.
            next_do (np_append_st centers cluster_centers) (\<lambda>r. returns (ws, r))) st2)"
      using Inr rs e2
      by (simp add: sample_center_points_st_def next_do_def outcome_def new_array_def
          split: sum.splits prod.splits)
    have startv: "sample_center_points g lib gen (Arr1 (contents st y)) (method_on_values lib m) k ke =
        and_then (reserve_edges ke (contents st y) k) (\<lambda>(centers, y', k').
        and_then (builtin_sampler lib b gen y' k') (\<lambda>cc. Inr (ws, np_append centers cc)))"
      using Inr rv by (simp add: sample_center_points_def)
    from reserve_edges_st_refines [OF y1 c, of ke k] e2 cy
    have step2: "case r2 of
        Inl e \<Rightarrow> reserve_edges ke (contents st y) k = Inl e
      | Inr (c', y', k') \<Rightarrow> addr c' < length st2 \<and> addr y' < length st2
          \<and> reserve_edges ke (contents st y) k = Inr (contents st2 c', contents st2 y', k')"
      by (auto split: sum.splits)
    show ?thesis
    proof (cases r2)
      case (Inl e)
      with step2 start startv show ?thesis by simp
    next
      case r2: (Inr t)
      obtain c' y' k' where t: "t = (c', y', k')" by (cases t)
      from step2 r2 t have c': "addr c' < length st2" and y': "addr y' < length st2"
        and rv2: "reserve_edges ke (contents st y) k = Inr (contents st2 c', contents st2 y', k')"
        by simp_all
      obtain st3 r3 where e3: "builtin_st lib b gen y' k' st2 = (st3, r3)"
        by (cases "builtin_st lib b gen y' k' st2")
      from frame_safe_builtin [of lib b gen y' k'] e3 have ext: "extends st2 st3"
        by (auto simp: frame_safe_def dest: spec [of _ st2])
      from sampler_refinesD [OF builtin_refines y' e3]
      have step3: "case r3 of
          Inl e \<Rightarrow> builtin_sampler lib b gen (contents st2 y') k' = Inl e
        | Inr a \<Rightarrow> addr a < length st3 \<and>
            (\<exists>out. builtin_sampler lib b gen (contents st2 y') k' = Inr out
               \<and> contents st3 a = ravel out)"
        .
      show ?thesis
      proof (cases r3)
        case (Inl e)
        with step3 start startv r2 t rv2 e3 show ?thesis
          by (simp add: next_do_def)
      next
        case (Inr a)
        with step3 obtain out where
          out: "builtin_sampler lib b gen (contents st2 y') k' = Inr out"
            "contents st3 a = ravel out"
          by auto
        have "contents st3 c' = contents st2 c'"
          using ext c' by (rule extends_contents)
        with out(2) have fin: "np_append_st c' a st3 =
            (st3 @ [contents st2 c' @ ravel out],
             Inr \<lparr>addr = length st3, lo = 0, n_elems = length (contents st2 c' @ ravel out)\<rparr>)"
          by (simp add: np_append_st_def next_do_def read_array_def new_array_def)
        from start r2 t e3 Inr fin
        have "sample_center_points_st g lib gen y (method_on_store lib m) k ke st =
            (st3 @ [contents st2 c' @ ravel out],
             Inr (ws, \<lparr>addr = length st3, lo = 0,
                        n_elems = length (contents st2 c' @ ravel out)\<rparr>))"
          by (simp add: next_do_def returns_def)
        moreover from startv rv2 out(1)
        have "sample_center_points g lib gen (Arr1 (contents st y)) (method_on_values lib m) k ke
            = Inr (ws, contents st2 c' @ ravel out)"
          by (simp add: np_append_def)
        ultimately show ?thesis
          by (simp add: contents_new)
      qed
    qed
  qed
qed

text \<open>
  C9.  \<open>sample_center_points\<close> never writes to the caller's targets array.  For every
  strategy (selected by name or as one of the six samplers), every \<open>k\<close> and either value
  of \<open>keep_edges\<close>, whether the call returns or raises: every buffer that the store held
  before the call is unchanged after it, and the targets array shows the same elements in
  the same order.  Sorting for the edges happens in a copy.
\<close>

theorem targets_never_mutated:
  "addr y < length st \<Longrightarrow>
   take (length st)
       (fst (sample_center_points_st g lib gen y (method_on_store lib m) k keep_edges st)) = st
   \<and> contents
       (fst (sample_center_points_st g lib gen y (method_on_store lib m) k keep_edges st)) y
       = contents st y"
proof -
  assume y: "addr y < length st"
  have "extends st
      (fst (sample_center_points_st g lib gen y (method_on_store lib m) k keep_edges st))"
    using frame_safe_sample_center_points_st [of g lib gen y m k keep_edges]
    by (simp add: frame_safe_def)
  with y show ?thesis
    by (simp add: extends_contents) (simp add: extends_def)
qed

theorem targets_never_mutated_witness:
  "addr \<lparr>addr = 0, lo = 0, n_elems = 3\<rparr> < length [[3, 1, 2 :: real]]
   \<and> sample_center_points_st kmn_globals example_sklearn example_gen
        \<lparr>addr = 0, lo = 0, n_elems = 3\<rparr> (method_on_store example_sklearn (ByFunction All))
        100 True [[3, 1, 2]]
      = ([[3, 1, 2], [], [1, 2, 3], [1, 3], [1, 3, 2]],
         Inr ([], \<lparr>addr = 4, lo = 0, n_elems = 3\<rparr>))
   \<and> contents [[3, 1, 2], [], [1, 2, 3], [1, 3], [1, 3, 2]] \<lparr>addr = 0, lo = 0, n_elems = 3\<rparr>
      = contents [[3, 1, 2]] \<lparr>addr = 0, lo = 0, n_elems = 3\<rparr>"
proof -
  have y: "addr \<lparr>addr = 0, lo = 0, n_elems = 3\<rparr> < length [[3, 1, 2 :: real]]" by simp
  have e: "sample_center_points_st kmn_globals example_sklearn example_gen
        \<lparr>addr = 0, lo = 0, n_elems = 3\<rparr> (method_on_store example_sklearn (ByFunction All))
        100 True [[3, 1, 2]]
      = ([[3, 1, 2], [], [1, 2, 3], [1, 3], [1, 3, 2]],
         Inr ([], \<lparr>addr = 4, lo = 0, n_elems = 3\<rparr>))"
    by (simp add: sample_center_points_st_def next_do_def outcome_def notice_k_def
        new_array_def reserve_edges_st_def np_sort_def read_array_def contents_def
        raises_def returns_def slice_1_minus_1_def all_sampler_st_def np_append_st_def)
  from targets_never_mutated [OF y, of kmn_globals example_sklearn example_gen
      "ByFunction All" 100 True]
  show ?thesis using y e by simp
qed

end
